theory Spec2Isabelle
  imports Complex_Main
begin

section \<open>Data model\<close>

text \<open>
  The two notebooks manipulate NumPy arrays and Python lists and dictionaries. Floating
  point values are modelled as reals (no NaN, no rounding); a 1-D array is a list; a 2-D
  array carries its shape explicitly, since NumPy keeps the number of columns of an array
  with no rows. Every exception the modelled code can raise is a value of \<open>py_error\<close>.
\<close>

datatype py_error = ValueError | IndexError | ZeroDivisionError | AssertionError | FileNotFoundError

record ndarray2 =
  nrows :: nat
  ncols :: nat
  rows :: "real list list"

text \<open>\<open>np.zeros(n)\<close> and \<open>np.append(h, z)\<close> on 1-D arrays.\<close>

definition np_zeros :: "nat \<Rightarrow> real list" where
  "np_zeros n = replicate n 0"

definition np_append :: "real list \<Rightarrow> real list \<Rightarrow> real list" where
  "np_append h z = h @ z"

text \<open>\<open>np.arange(n) * dt\<close>.\<close>

definition arange_times :: "nat \<Rightarrow> real \<Rightarrow> real list" where
  "arange_times n dt = map (\<lambda>k. real k * dt) [0..<n]"

text \<open>
  \<open>np.vstack\<close> of a list of 1-D arrays: raises ValueError on an empty list and when the
  arrays differ in length; otherwise each array is one row.
\<close>

definition np_vstack :: "real list list \<Rightarrow> py_error + ndarray2" where
  "np_vstack xs =
     (case xs of
        [] \<Rightarrow> Inl ValueError
      | x # _ \<Rightarrow>
          if list_all (\<lambda>y. length y = length x) xs
          then Inr \<lparr>nrows = length xs, ncols = length x, rows = xs\<rparr>
          else Inl ValueError)"

text \<open>\<open>A.transpose()\<close> of a 2-D array.\<close>

definition np_transpose :: "ndarray2 \<Rightarrow> ndarray2" where
  "np_transpose A =
     \<lparr>nrows = ncols A, ncols = nrows A,
      rows = map (\<lambda>j. map (\<lambda>r. r ! j) (rows A)) [0..<ncols A]\<rparr>"

text \<open>\<open>A[offset:, i]\<close> for a non-negative offset and index; \<open>A[:, i]\<close> is offset 0.\<close>

definition slice_col :: "ndarray2 \<Rightarrow> nat \<Rightarrow> nat \<Rightarrow> py_error + real list" where
  "slice_col A offset i =
     (if i < ncols A then Inr (map (\<lambda>r. r ! i) (drop offset (rows A))) else Inl IndexError)"

definition column :: "ndarray2 \<Rightarrow> nat \<Rightarrow> py_error + real list" where
  "column A i = slice_col A 0 i"

section \<open>Surrogate notebook: padding to a common time grid\<close>

text \<open>
  The first loop of \<open>common_time_grid\<close>: the running maximum of the lengths, from 0.
\<close>

definition longest_waveform :: "real list list \<Rightarrow> nat" where
  "longest_waveform training_data =
     fold (\<lambda>h longest. if length h > longest then length h else longest) training_data 0"

text \<open>The second loop: every waveform padded with zeros to the longest length.\<close>

definition pad_waveforms :: "nat \<Rightarrow> real list list \<Rightarrow> real list list" where
  "pad_waveforms longest training_data =
     map (\<lambda>h. np_append h (np_zeros (longest - length h))) training_data"

definition common_time_grid :: "real list list \<Rightarrow> real \<Rightarrow> py_error + (real list \<times> ndarray2)" where
  "common_time_grid training_data dt =
     (let longest = longest_waveform training_data;
          padded_training_data = pad_waveforms longest training_data;
          times = arange_times longest dt
      in case np_vstack padded_training_data of
           Inl e \<Rightarrow> Inl e
         | Inr stacked \<Rightarrow> Inr (times, np_transpose stacked))"

section \<open>Surrogate notebook: sizes of the training-set iterations\<close>

text \<open>
  \<open>iteration_size = len(q_train) // num_iterations\<close> and
  \<open>append_sizes = [iteration_size] * num_iterations\<close>; integer division by zero raises.
\<close>

definition append_sizes :: "nat \<Rightarrow> nat \<Rightarrow> py_error + nat list" where
  "append_sizes len_q_train num_iterations =
     (if num_iterations = 0 then Inl ZeroDivisionError
      else Inr (replicate num_iterations (len_q_train div num_iterations)))"

text \<open>
  The notebook cell itself: \<open>num_iterations = 10\<close>, followed by
  \<open>assert np.sum(append_sizes) == 240\<close>. The length of \<open>q_train\<close> comes from
  scikit-learn's \<open>train_test_split\<close> and is a parameter here.
\<close>

definition append_sizes_cell :: "nat \<Rightarrow> py_error + nat list" where
  "append_sizes_cell len_q_train =
     (case append_sizes len_q_train 10 of
        Inl e \<Rightarrow> Inl e
      | Inr sizes \<Rightarrow> if sum_list sizes = 240 then Inr sizes else Inl AssertionError)"

section \<open>Surrogate notebook: peak alignment\<close>

text \<open>
  \<open>get_peaks\<close> and \<open>align_peaks\<close> read the notebook's global variables \<open>times\<close> and
  \<open>num_train_samples\<close>; the globals are an explicit argument of the model.
\<close>

record notebook_globals =
  num_train_samples :: nat
  times_global :: "real list"

text \<open>\<open>np.abs\<close> on a 1-D array.\<close>

definition np_abs :: "real list \<Rightarrow> real list" where
  "np_abs h = map abs h"

text \<open>
  \<open>np.argmax\<close> on a 1-D array: ValueError on an empty array, otherwise the index of the
  first occurrence of the maximum, found by one scan from the left.
\<close>

fun argmax_scan :: "nat \<Rightarrow> real \<Rightarrow> nat \<Rightarrow> real list \<Rightarrow> nat" where
  "argmax_scan best_i best_v i [] = best_i"
| "argmax_scan best_i best_v i (x # xs) =
     (if best_v < x then argmax_scan i x (Suc i) xs else argmax_scan best_i best_v (Suc i) xs)"

definition np_argmax :: "real list \<Rightarrow> py_error + nat" where
  "np_argmax xs = (case xs of [] \<Rightarrow> Inl ValueError | x # xs' \<Rightarrow> Inr (argmax_scan 0 x 1 xs'))"

text \<open>Python's \<open>min\<close> on a list: ValueError on the empty list.\<close>

definition py_min :: "nat list \<Rightarrow> py_error + nat" where
  "py_min xs = (case xs of [] \<Rightarrow> Inl ValueError | x # xs' \<Rightarrow> Inr (fold min xs' x))"

text \<open>
  A loop \<open>for i in range(n): out.append(f(i))\<close>: the results in order, or the first
  exception raised.
\<close>

fun collect :: "(nat \<Rightarrow> py_error + 'a) \<Rightarrow> nat list \<Rightarrow> py_error + 'a list" where
  "collect f [] = Inr []"
| "collect f (i # js) =
     (case f i of
        Inl e \<Rightarrow> Inl e
      | Inr v \<Rightarrow> (case collect f js of Inl e \<Rightarrow> Inl e | Inr vs \<Rightarrow> Inr (v # vs)))"

text \<open>
  \<open>get_peak(t, h)\<close> returns \<open>[arg, t[arg], h[arg]]\<close>; \<open>t[arg]\<close> raises IndexError when
  \<open>t\<close> is too short, \<open>h[arg]\<close> is always in range.
\<close>

definition get_peak :: "real list \<Rightarrow> real list \<Rightarrow> py_error + (nat \<times> real \<times> real)" where
  "get_peak t h =
     (case np_argmax (np_abs h) of
        Inl e \<Rightarrow> Inl e
      | Inr arg \<Rightarrow> if arg < length t then Inr (arg, t ! arg, h ! arg) else Inl IndexError)"

text \<open>
  \<open>get_peaks(t, training_set)\<close>: the parameter \<open>t\<close> is not used; the call is
  \<open>get_peak(times, training_set[:, i])\<close> with the global \<open>times\<close>, for
  \<open>i in range(num_train_samples)\<close>.
\<close>

definition get_peaks :: "notebook_globals \<Rightarrow> real list \<Rightarrow> ndarray2 \<Rightarrow> py_error + nat list" where
  "get_peaks g t training_set =
     collect (\<lambda>i. case column training_set i of
                     Inl e \<Rightarrow> Inl e
                   | Inr h \<Rightarrow> (case get_peak (times_global g) h of
                                 Inl e \<Rightarrow> Inl e
                               | Inr (arg, t_peak, h_peak) \<Rightarrow> Inr arg))
             [0..<num_train_samples g]"

text \<open>
  \<open>align_peaks(times, training_set)\<close>. The offsets are differences to the minimum of the
  list, hence never negative; the final call of \<open>common_time_grid\<close> uses the default
  \<open>dt = 0.1\<close> and its times are dropped.
\<close>

definition align_peaks :: "notebook_globals \<Rightarrow> real list \<Rightarrow> ndarray2 \<Rightarrow> py_error + ndarray2" where
  "align_peaks g t training_set =
     (case get_peaks g t training_set of
        Inl e \<Rightarrow> Inl e
      | Inr time_peak_arg \<Rightarrow>
          (case py_min time_peak_arg of
             Inl e \<Rightarrow> Inl e
           | Inr min_arg \<Rightarrow>
               (case collect (\<lambda>i. slice_col training_set (time_peak_arg ! i - min_arg) i)
                       [0..<num_train_samples g] of
                  Inl e \<Rightarrow> Inl e
                | Inr aligned_training_set \<Rightarrow>
                    (case common_time_grid aligned_training_set (1 / 10) of
                       Inl e \<Rightarrow> Inl e
                     | Inr (t', training_data_aligned) \<Rightarrow> Inr training_data_aligned))))"

section \<open>Surrogate notebook: the staged optimisation\<close>

text \<open>
  Python values that occur in the hyperparameter dictionaries, and a dictionary as a
  finite map from its keys; the order of the keys plays no role in what follows.
\<close>

datatype pyval = PInt int | PFloat real | PStr string | PList "pyval list"

type_synonym py_dict = "string \<rightharpoonup> pyval"

text \<open>\<open>d[k] = v\<close> and the merge \<open>d1 | d2\<close> of two dictionaries.\<close>

definition dict_set :: "string \<Rightarrow> pyval \<Rightarrow> py_dict \<Rightarrow> py_dict" where
  "dict_set k v d = d(k \<mapsto> v)"

definition dict_or :: "py_dict \<Rightarrow> py_dict \<Rightarrow> py_dict" where
  "dict_or d1 d2 = d1 ++ d2"

text \<open>\<open>np.linspace(start, stop, num)\<close>, in exact arithmetic.\<close>

definition np_linspace :: "real \<Rightarrow> real \<Rightarrow> nat \<Rightarrow> real list" where
  "np_linspace start stop num =
     map (\<lambda>i. start + real i * ((stop - start) / real (num - 1))) [0..<num]"

text \<open>The three dictionary literals of the notebook.\<close>

definition functional_options_dict :: py_dict where
  "functional_options_dict =
     map_of [(''activation'', PList [PStr ''relu'', PStr ''tanh'', PStr ''sigmoid'']),
      (''weight_init'', PList [PStr ''glorot_uniform'']),
      (''learning_rate'', PList [PFloat (1 / 10000), PFloat (1 / 1000), PFloat (1 / 100)]),
      (''optimiser'', PList [PStr ''Adam'', PStr ''Adamax'', PStr ''Nadam'', PStr ''Ftrl'',
                             PStr ''SGD'', PStr ''RMSprop'']),
      (''normalisation'', PList [PInt 0])]"

definition fixed_dict_functional :: py_dict where
  "fixed_dict_functional =
     map_of [(''nodes_per_layer'', PInt 10),
      (''num_hidden_layers'', PInt 4),
      (''dropout'', PFloat 1),
      (''dropout_rate'', PFloat (2 / 10)),
      (''batch_size'', PInt 16),
      (''num_epochs'', PInt 100)]"

definition shape_options_dict :: py_dict where
  "shape_options_dict =
     map_of [(''num_hidden_layers'', PList [PInt 2, PInt 4, PInt 6, PInt 8, PInt 10]),
      (''nodes_per_layer'', PList [PInt 8, PInt 10, PInt 15, PInt 20, PInt 50]),
      (''dropout'', PList [PFloat 0, PFloat 1]),
      (''dropout_rate'', PList (map PFloat (np_linspace (1 / 10) (5 / 10) 5))),
      (''batch_size'', PList [PInt 8])]"

text \<open>
  The searches and the training loop belong to Optuna and gwbonsai. They are parameters
  of the model: \<open>functional_best\<close> and \<open>shape_best\<close> stand for creating a study,
  optimising the objective for the given number of trials and reading
  \<open>study.best_trial.params\<close>. Every call into these libraries is appended to the log
  \<open>calls\<close> of the notebook state, next to the files written by \<open>np.save\<close>.
\<close>

datatype library_call =
    FunctionalStudy py_dict py_dict nat
  | ShapeStudy py_dict py_dict nat
  | TrainIteration "nat list" py_dict nat

record externals =
  functional_best :: "py_dict \<Rightarrow> py_dict \<Rightarrow> nat \<Rightarrow> py_dict"
  shape_best :: "py_dict \<Rightarrow> py_dict \<Rightarrow> nat \<Rightarrow> py_dict"

record notebook =
  files :: "string \<rightharpoonup> py_dict"
  calls :: "library_call list"

definition np_save :: "string \<Rightarrow> py_dict \<Rightarrow> notebook \<Rightarrow> notebook" where
  "np_save name d nb = nb\<lparr>files := (files nb)(name \<mapsto> d)\<rparr>"

definition np_load :: "string \<Rightarrow> notebook \<Rightarrow> py_error + py_dict" where
  "np_load name nb = (case files nb name of None \<Rightarrow> Inl FileNotFoundError | Some d \<Rightarrow> Inr d)"

definition record_call :: "library_call \<Rightarrow> notebook \<Rightarrow> notebook" where
  "record_call c nb = nb\<lparr>calls := calls nb @ [c]\<rparr>"

text \<open>
  Stage 1, the cell under "Optimising Functional Hyperparameters": the study runs with
  \<open>n_trials=50\<close> and its best parameters are saved.
\<close>

definition optimise_functional :: "externals \<Rightarrow> notebook \<Rightarrow> py_error + notebook" where
  "optimise_functional ext nb =
     (let best_params = functional_best ext functional_options_dict fixed_dict_functional 50
      in Inr (np_save ''best_functional_hyper.npy'' best_params
                (record_call (FunctionalStudy functional_options_dict fixed_dict_functional 50) nb)))"

text \<open>
  Stage 2, "Optimising Size and Shape Parameters": the saved parameters are loaded,
  \<open>fixed_dict['num_epochs'] = 100\<close> is set on the loaded copy, the study runs with
  \<open>n_trials=100\<close> and its best parameters are saved.
\<close>

definition optimise_shape :: "externals \<Rightarrow> notebook \<Rightarrow> py_error + notebook" where
  "optimise_shape ext nb =
     (case np_load ''best_functional_hyper.npy'' nb of
        Inl e \<Rightarrow> Inl e
      | Inr functional_best_params \<Rightarrow>
          (let fixed_dict = dict_set ''num_epochs'' (PInt 100) functional_best_params;
               best_params = shape_best ext shape_options_dict fixed_dict 100
           in Inr (np_save ''best_shape_hyper.npy'' best_params
                     (record_call (ShapeStudy shape_options_dict fixed_dict 100) nb))))"

text \<open>
  Stage 3, "Optimising Training Dataset": both files are loaded and merged, the sizes of
  the iterations are computed and asserted, and \<open>train_iteration\<close> is called with them.
  \<open>np.load\<close> wraps each pickled dictionary in a 0-d object array, and \<open>|\<close> on such arrays
  applies the \<open>|\<close> of the dictionaries inside.
\<close>

definition optimise_dataset :: "nat \<Rightarrow> notebook \<Rightarrow> py_error + notebook" where
  "optimise_dataset len_q_train nb =
     (case np_load ''best_functional_hyper.npy'' nb of
        Inl e \<Rightarrow> Inl e
      | Inr best_functional \<Rightarrow>
          (case np_load ''best_shape_hyper.npy'' nb of
             Inl e \<Rightarrow> Inl e
           | Inr best_shape \<Rightarrow>
               (let best = dict_or best_functional best_shape
                in case append_sizes_cell len_q_train of
                     Inl e \<Rightarrow> Inl e
                   | Inr sizes \<Rightarrow> Inr (record_call (TrainIteration sizes best 100) nb))))"

text \<open>The three stages in the order of the notebook; an exception ends the run.\<close>

definition surrogate_workflow :: "externals \<Rightarrow> notebook \<Rightarrow> nat \<Rightarrow> py_error + notebook" where
  "surrogate_workflow ext nb len_q_train =
     (case optimise_functional ext nb of
        Inl e \<Rightarrow> Inl e
      | Inr nb1 \<Rightarrow>
          (case optimise_shape ext nb1 of
             Inl e \<Rightarrow> Inl e
           | Inr nb2 \<Rightarrow> optimise_dataset len_q_train nb2))"

section \<open>Classifier notebook: features, targets and the model\<close>

text \<open>A NumPy array is rectangular: as many rows as \<open>nrows\<close>, each of \<open>ncols\<close> entries.\<close>

definition wf_array :: "ndarray2 \<Rightarrow> bool" where
  "wf_array A = (length (rows A) = nrows A \<and> list_all (\<lambda>r. length r = ncols A) (rows A))"

text \<open>
  \<open>X, y = data[:, :-1], data[:, -1]\<close>: the slice \<open>:-1\<close> keeps the columns before the
  last one and never fails; the index \<open>-1\<close> is the last column and raises IndexError when
  there is no column.
\<close>

definition split_features_target :: "ndarray2 \<Rightarrow> py_error + (ndarray2 \<times> real list)" where
  "split_features_target data =
     (let X = \<lparr>nrows = nrows data, ncols = ncols data - 1,
               rows = map (take (ncols data - 1)) (rows data)\<rparr>
      in if ncols data = 0 then Inl IndexError
         else Inr (X, map (\<lambda>r. r ! (ncols data - 1)) (rows data)))"

text \<open>\<open>output_classes = len(np.unique(y))\<close>: the number of distinct labels.\<close>

definition output_classes :: "'a list \<Rightarrow> nat" where
  "output_classes y = length (remdups y)"

text \<open>
  Keras's \<open>to_categorical(x, num_classes)\<close>, after its cast of the labels to int64: a
  missing or zero \<open>num_classes\<close> is replaced by \<open>np.max(x) + 1\<close> (ValueError on an empty
  \<open>x\<close>), a matrix of zeros is allocated, and entry \<open>(i, x[i])\<close> of each row is set to 1
  with NumPy's indexing: a negative index counts from the end, an index out of range
  raises IndexError.
\<close>

definition one_hot_row :: "nat \<Rightarrow> int \<Rightarrow> py_error + real list" where
  "one_hot_row n v =
     (let j = (if v < 0 then v + int n else v)
      in if 0 \<le> j \<and> j < int n then Inr ((replicate n 0)[nat j := 1]) else Inl IndexError)"

definition to_categorical :: "int list \<Rightarrow> nat \<Rightarrow> py_error + ndarray2" where
  "to_categorical x num_classes =
     (if num_classes = 0 \<and> x = [] then Inl ValueError
      else let nc = (if num_classes = 0 then Max (set x) + 1 else int num_classes)
           in if nc < 0 then Inl ValueError
              else (case collect (\<lambda>i. one_hot_row (nat nc) (x ! i)) [0..<length x] of
                      Inl e \<Rightarrow> Inl e
                    | Inr rs \<Rightarrow> Inr \<lparr>nrows = length x, ncols = nat nc, rows = rs\<rparr>))"

text \<open>
  \<open>np.argmax(M, axis=1)\<close>: the first maximum of every row; ValueError when the rows have
  no entries.
\<close>

definition np_argmax_axis1 :: "ndarray2 \<Rightarrow> py_error + nat list" where
  "np_argmax_axis1 M =
     (if ncols M = 0 then Inl ValueError
      else collect (\<lambda>i. np_argmax (rows M ! i)) [0..<nrows M])"

text \<open>
  The cast of the float labels to int64 that \<open>to_categorical\<close> performs first
  (\<open>np.array(x, dtype="int64")\<close>): truncation towards zero.
\<close>

definition astype_int64 :: "real \<Rightarrow> int" where
  "astype_int64 v = (if 0 \<le> v then \<lfloor>v\<rfloor> else \<lceil>v\<rceil>)"

text \<open>\<open>A[idx]\<close> for a list of row indices; an index out of range raises IndexError.\<close>

definition select_rows :: "ndarray2 \<Rightarrow> nat list \<Rightarrow> py_error + ndarray2" where
  "select_rows A idx =
     (case collect (\<lambda>k. if idx ! k < nrows A then Inr (rows A ! (idx ! k)) else Inl IndexError)
             [0..<length idx] of
        Inl e \<Rightarrow> Inl e
      | Inr rs \<Rightarrow> Inr \<lparr>nrows = length idx, ncols = ncols A, rows = rs\<rparr>)"

text \<open>
  scikit-learn's \<open>train_test_split(X, y, random_state=0)\<close> with its default
  \<open>test_size = 0.25\<close>: the two arrays must have the same number of samples, the test set
  has \<open>ceil(0.25 * n)\<close> samples and the training set the others, an empty training set
  raises ValueError, and the rows are drawn by a permutation of the indices, the first
  part for the test set and the next for the training set. The permutation comes from
  the library's random generator and is a parameter. The result is
  \<open>(X_train, X_test, y_train, y_test)\<close>.
\<close>

definition train_test_split ::
  "nat list \<Rightarrow> ndarray2 \<Rightarrow> ndarray2 \<Rightarrow> py_error + (ndarray2 \<times> ndarray2 \<times> ndarray2 \<times> ndarray2)" where
  "train_test_split permutation X Y =
     (let n = nrows X; n_test = (n + 3) div 4; n_train = n - n_test
      in if nrows Y \<noteq> n then Inl ValueError
         else if n_train = 0 then Inl ValueError
         else let ind_test = take n_test permutation;
                  ind_train = take n_train (drop n_test permutation)
              in (case select_rows X ind_train of
                    Inl e \<Rightarrow> Inl e
                  | Inr X_train \<Rightarrow>
                  (case select_rows X ind_test of
                    Inl e \<Rightarrow> Inl e
                  | Inr X_test \<Rightarrow>
                  (case select_rows Y ind_train of
                    Inl e \<Rightarrow> Inl e
                  | Inr y_train \<Rightarrow>
                  (case select_rows Y ind_test of
                    Inl e \<Rightarrow> Inl e
                  | Inr y_test \<Rightarrow> Inr (X_train, X_test, y_train, y_test))))))"

text \<open>
  A layer of the model: units, activation and, on the first layer, the input shape.
  The constructor \<open>Dense(units, ...)\<close> raises ValueError unless \<open>units\<close> is positive.
\<close>

datatype activation = Tanh | Softmax

datatype layer = Dense nat activation "nat option"

definition dense :: "nat \<Rightarrow> activation \<Rightarrow> nat option \<Rightarrow> py_error + layer" where
  "dense units act input_shape =
     (if units = 0 then Inl ValueError else Inr (Dense units act input_shape))"

text \<open>The list of layers handed to \<open>Sequential\<close>, built from left to right.\<close>

definition classifier_layers :: "nat \<Rightarrow> nat \<Rightarrow> py_error + layer list" where
  "classifier_layers input_dim n_classes =
     (case dense 32 Tanh (Some input_dim) of
        Inl e \<Rightarrow> Inl e
      | Inr l1 \<Rightarrow>
      (case dense 16 Tanh None of
        Inl e \<Rightarrow> Inl e
      | Inr l2 \<Rightarrow>
      (case dense n_classes Softmax None of
        Inl e \<Rightarrow> Inl e
      | Inr l3 \<Rightarrow> Inr [l1, l2, l3])))"

text \<open>
  The cells from the split of the data matrix to the construction of the model, in the
  order of the notebook: the split, \<open>output_classes = len(np.unique(y))\<close>, the one-hot
  encoding of \<open>y\<close>, the train/test split, \<open>input_dim = X_train.shape[1]\<close> and the model.
  The first exception ends the run and no model is built.
\<close>

definition classifier_cells :: "(nat \<Rightarrow> nat list) \<Rightarrow> ndarray2 \<Rightarrow> py_error + layer list" where
  "classifier_cells rng_permutation data =
     (case split_features_target data of
        Inl e \<Rightarrow> Inl e
      | Inr (X, y) \<Rightarrow>
          (let n_classes = output_classes y
           in case to_categorical (map astype_int64 y) n_classes of
                Inl e \<Rightarrow> Inl e
              | Inr Y \<Rightarrow>
                  (case train_test_split (rng_permutation (nrows X)) X Y of
                     Inl e \<Rightarrow> Inl e
                   | Inr (X_train, X_test, y_train, y_test) \<Rightarrow>
                       classifier_layers (ncols X_train) n_classes)))"

text \<open>The specification of \<open>np.argmax\<close>: the first index that holds the maximum.\<close>

definition is_first_max :: "real list \<Rightarrow> nat \<Rightarrow> bool" where
  "is_first_max xs k =
     (k < length xs \<and> (\<forall>j<length xs. xs ! j \<le> xs ! k) \<and> (\<forall>j<k. xs ! j < xs ! k))"

section \<open>Properties of the padding\<close>

lemma fold_longest_step:
  "fold (\<lambda>h longest. if length h > longest then length h else longest) ws a
     = Max (insert a (set (map length ws)))"
proof (induction ws arbitrary: a)
  case Nil
  show ?case by simp
next
  case (Cons w ws)
  have "Max (insert (if a < length w then length w else a) (set (map length ws)))
          = Max (insert a (insert (length w) (set (map length ws))))"
  proof (cases "set (map length ws) = {}")
    case True
    then show ?thesis by (simp add: max_def)
  next
    case False
    then show ?thesis by (simp add: max_def)
  qed
  with Cons show ?case by simp
qed

lemma longest_waveform_Max:
  "ws \<noteq> [] \<Longrightarrow> longest_waveform ws = Max (set (map length ws))"
proof -
  assume ne: "ws \<noteq> []"
  then have "set (map length ws) \<noteq> {}" by simp
  then have "Max (insert 0 (set (map length ws))) = Max (set (map length ws))"
    by (simp add: max_def)
  then show ?thesis by (simp add: longest_waveform_def fold_longest_step)
qed

lemma longest_waveform_ge:
  "w \<in> set ws \<Longrightarrow> length w \<le> longest_waveform ws"
  by (simp add: longest_waveform_def fold_longest_step Max_ge_iff)

lemma pad_waveforms_length:
  "p \<in> set (pad_waveforms (longest_waveform ws) ws) \<Longrightarrow> length p = longest_waveform ws"
  by (auto simp: pad_waveforms_def np_append_def np_zeros_def dest: longest_waveform_ge)

lemma np_vstack_uniform:
  assumes "xs \<noteq> []" and "\<forall>x\<in>set xs. length x = n"
  shows "np_vstack xs = Inr \<lparr>nrows = length xs, ncols = n, rows = xs\<rparr>"
proof -
  from assms(1) obtain x xs' where xs: "xs = x # xs'" by (cases xs) auto
  with assms(2) have "length x = n" by simp
  moreover from assms(2) \<open>length x = n\<close> have "list_all (\<lambda>y. length y = length x) xs"
    by (simp add: list_all_iff)
  ultimately show ?thesis by (simp add: np_vstack_def xs)
qed

lemma slice_col_transpose_uniform:
  assumes "i < length xs" and "\<forall>x\<in>set xs. length x = n"
  shows "slice_col (np_transpose \<lparr>nrows = length xs, ncols = n, rows = xs\<rparr>) off i
           = Inr (drop off (xs ! i))"
proof -
  from assms have len: "length (xs ! i) = n" by simp
  have "map (\<lambda>r. r ! i) (drop off (map (\<lambda>j. map (\<lambda>r. r ! j) xs) [0..<n]))
          = map (\<lambda>j. (xs ! i) ! j) (drop off [0..<n])"
    using assms(1) by (simp add: drop_map)
  also have "\<dots> = drop off (map (\<lambda>j. (xs ! i) ! j) [0..<n])"
    by (simp only: drop_map)
  also have "\<dots> = drop off (xs ! i)"
    using len by (metis map_nth)
  finally show ?thesis
    using assms(1) by (simp add: slice_col_def np_transpose_def)
qed

lemma common_time_grid_eq:
  assumes "ws \<noteq> []"
  shows "common_time_grid ws dt =
           Inr (arange_times (longest_waveform ws) dt,
                np_transpose \<lparr>nrows = length ws, ncols = longest_waveform ws,
                              rows = pad_waveforms (longest_waveform ws) ws\<rparr>)"
proof -
  let ?L = "longest_waveform ws"
  have ne: "pad_waveforms ?L ws \<noteq> []"
    using assms by (simp add: pad_waveforms_def)
  have "np_vstack (pad_waveforms ?L ws)
          = Inr \<lparr>nrows = length (pad_waveforms ?L ws), ncols = ?L, rows = pad_waveforms ?L ws\<rparr>"
    by (rule np_vstack_uniform[OF ne]) (simp add: pad_waveforms_length)
  then show ?thesis
    by (simp add: common_time_grid_def Let_def pad_waveforms_def)
qed

lemma common_time_grid_columns:
  assumes "ws \<noteq> []"
  shows "\<exists>ts A. common_time_grid ws dt = Inr (ts, A)
           \<and> ncols A = length ws
           \<and> nrows A = Max (set (map length ws))
           \<and> (\<forall>i<length ws. column A i = Inr (ws ! i @ replicate (nrows A - length (ws ! i)) 0))
           \<and> ts = arange_times (nrows A) dt"
proof -
  let ?L = "longest_waveform ws"
  let ?P = "pad_waveforms ?L ws"
  let ?A = "np_transpose \<lparr>nrows = length ws, ncols = ?L, rows = ?P\<rparr>"
  have eq: "common_time_grid ws dt = Inr (arange_times ?L dt, ?A)"
    by (rule common_time_grid_eq[OF assms])
  have L: "?L = Max (set (map length ws))"
    by (rule longest_waveform_Max[OF assms])
  have lenP: "length ?P = length ws" by (simp add: pad_waveforms_def)
  have cols: "column ?A i = Inr (ws ! i @ replicate (?L - length (ws ! i)) 0)" if "i < length ws" for i
  proof -
    have "slice_col (np_transpose \<lparr>nrows = length ?P, ncols = ?L, rows = ?P\<rparr>) 0 i
            = Inr (drop 0 (?P ! i))"
      by (rule slice_col_transpose_uniform) (use that lenP in \<open>simp_all add: pad_waveforms_length\<close>)
    then show ?thesis
      using that
      by (simp add: lenP column_def) (simp add: pad_waveforms_def np_append_def np_zeros_def)
  qed
  have "ncols ?A = length ws" by (simp add: np_transpose_def)
  moreover have rowsA: "nrows ?A = ?L" by (simp add: np_transpose_def)
  ultimately show ?thesis
    using eq L cols by (simp add: rowsA)
qed

section \<open>Properties of the peak search\<close>

lemma argmax_scan_spec:
  assumes "bi < length ps" "ps ! bi = bv" "\<forall>j<length ps. ps ! j \<le> bv" "\<forall>j<bi. ps ! j < bv"
    "i = length ps"
  shows "is_first_max (ps @ xs) (argmax_scan bi bv i xs)"
  using assms
proof (induction xs arbitrary: ps bi bv i)
  case Nil
  then show ?case by (simp add: is_first_max_def)
next
  case (Cons x xs)
  show ?case
  proof (cases "bv < x")
    case True
    have "is_first_max ((ps @ [x]) @ xs) (argmax_scan i x (Suc i) xs)"
    proof (rule Cons.IH)
      show "i < length (ps @ [x])" using Cons.prems by simp
      show "(ps @ [x]) ! i = x" using Cons.prems by simp
      show "\<forall>j<length (ps @ [x]). (ps @ [x]) ! j \<le> x"
        using Cons.prems True by (auto simp: nth_append less_Suc_eq intro: order_trans less_imp_le)
      show "\<forall>j<i. (ps @ [x]) ! j < x"
        using Cons.prems True by (auto simp: nth_append intro: le_less_trans)
      show "Suc i = length (ps @ [x])" using Cons.prems by simp
    qed
    with True show ?thesis by simp
  next
    case False
    have "is_first_max ((ps @ [x]) @ xs) (argmax_scan bi bv (Suc i) xs)"
    proof (rule Cons.IH)
      show "bi < length (ps @ [x])" using Cons.prems by simp
      show "(ps @ [x]) ! bi = bv" using Cons.prems by (simp add: nth_append)
      show "\<forall>j<length (ps @ [x]). (ps @ [x]) ! j \<le> bv"
        using Cons.prems False by (auto simp: nth_append less_Suc_eq)
      show "\<forall>j<bi. (ps @ [x]) ! j < bv"
        using Cons.prems by (auto simp: nth_append)
      show "Suc i = length (ps @ [x])" using Cons.prems by simp
    qed
    with False show ?thesis by simp
  qed
qed

lemma is_first_max_unique:
  assumes "is_first_max xs k" "is_first_max xs k'"
  shows "k = k'"
proof (rule ccontr)
  assume "k \<noteq> k'"
  then consider "k < k'" | "k' < k" by linarith
  then show False
  proof cases
    case 1
    with assms have "xs ! k < xs ! k'" "xs ! k' \<le> xs ! k" by (auto simp: is_first_max_def)
    then show False by simp
  next
    case 2
    with assms have "xs ! k' < xs ! k" "xs ! k \<le> xs ! k'" by (auto simp: is_first_max_def)
    then show False by simp
  qed
qed

lemma np_argmax_first_max:
  assumes "xs \<noteq> []"
  shows "\<exists>k. np_argmax xs = Inr k \<and> is_first_max xs k"
proof -
  from assms obtain x xs' where xs: "xs = x # xs'" by (cases xs) auto
  have "is_first_max ([x] @ xs') (argmax_scan 0 x 1 xs')"
    by (rule argmax_scan_spec) simp_all
  then show ?thesis by (simp add: np_argmax_def xs)
qed

lemma np_argmax_iff:
  "np_argmax xs = Inr k \<longleftrightarrow> xs \<noteq> [] \<and> is_first_max xs k"
proof (cases "xs = []")
  case True
  then show ?thesis by (simp add: np_argmax_def)
next
  case False
  then obtain k' where k': "np_argmax xs = Inr k'" "is_first_max xs k'"
    using np_argmax_first_max by blast
  then show ?thesis using False is_first_max_unique by auto
qed

lemma collect_Inr:
  "(\<And>i. i \<in> set js \<Longrightarrow> f i = Inr (v i)) \<Longrightarrow> collect f js = Inr (map v js)"
  by (induction js) simp_all

lemma py_min_Min:
  "xs \<noteq> [] \<Longrightarrow> py_min xs = Inr (Min (set xs))"
proof -
  assume "xs \<noteq> []"
  then obtain x xs' where xs: "xs = x # xs'" by (cases xs) auto
  have "fold min xs' x = Min (set (x # xs'))" by (rule Min.set_eq_fold[symmetric])
  then show ?thesis by (simp add: py_min_def xs)
qed

lemma shifted_first_max:
  assumes fm: "is_first_max (np_abs c) p" and mp: "m \<le> p"
  shows "is_first_max (np_abs (drop (p - m) c @ replicate (p - m) 0)) m"
proof -
  let ?off = "p - m"
  let ?a = "np_abs c"
  have len: "length ?a = length c" by (simp add: np_abs_def)
  have p: "p < length c" using fm by (simp add: is_first_max_def len)
  have eq: "np_abs (drop ?off c @ replicate ?off 0) = drop ?off ?a @ replicate ?off 0"
    by (simp add: np_abs_def drop_map)
  have m_lt: "m < length (drop ?off ?a)" using p mp by (simp add: len)
  have at_m: "(drop ?off ?a @ replicate ?off 0) ! m = ?a ! p"
    using m_lt mp p by (simp add: nth_append len)
  have nonneg: "0 \<le> ?a ! p" using p by (simp add: np_abs_def)
  have le: "(drop ?off ?a @ replicate ?off 0) ! j \<le> ?a ! p"
    if "j < length (drop ?off ?a @ replicate ?off 0)" for j
  proof (cases "j < length (drop ?off ?a)")
    case True
    then have "(drop ?off ?a @ replicate ?off 0) ! j = ?a ! (?off + j)"
      by (simp add: nth_append)
    moreover have "?off + j < length ?a" using True by simp
    ultimately show ?thesis using fm by (simp add: is_first_max_def)
  next
    case False
    let ?d = "drop ?off ?a"
    from False that have "j - length ?d < ?off" by simp
    then have "replicate ?off (0::real) ! (j - length ?d) = 0" by (rule nth_replicate)
    moreover from False have "(?d @ replicate ?off 0) ! j = replicate ?off 0 ! (j - length ?d)"
      by (rule nth_append_right[OF leI])
    ultimately show ?thesis using nonneg by simp
  qed
  have lt: "(drop ?off ?a @ replicate ?off 0) ! j < ?a ! p" if "j < m" for j
  proof -
    have "j < length (drop ?off ?a)" using that m_lt by simp
    then have "(drop ?off ?a @ replicate ?off 0) ! j = ?a ! (?off + j)"
      by (simp add: nth_append)
    moreover have "?off + j < p" using that mp by simp
    ultimately show ?thesis using fm by (simp add: is_first_max_def)
  qed
  show ?thesis
    unfolding eq is_first_max_def at_m
    using m_lt le lt by simp
qed


section \<open>Properties of the alignment\<close>

lemma collect_length:
  "collect f js = Inr vs \<Longrightarrow> length vs = length js"
  by (induction js arbitrary: vs) (auto split: sum.splits)

lemma common_time_grid_ncols:
  assumes "common_time_grid ws dt = Inr (ts, A)"
  shows "ncols A = length ws"
proof (cases "ws = []")
  case True
  with assms show ?thesis
    by (simp add: common_time_grid_def pad_waveforms_def np_vstack_def Let_def)
next
  case False
  from common_time_grid_eq[OF False, of dt] assms show ?thesis
    by (auto simp: np_transpose_def)
qed

lemma align_peaks_uniform:
  assumes ne: "xs \<noteq> []" and uni: "\<forall>x\<in>set xs. length x = L" and L: "0 < L"
    and n: "num_train_samples g = length xs" and tl: "length (times_global g) = L"
  defines "A \<equiv> np_transpose \<lparr>nrows = length xs, ncols = L, rows = xs\<rparr>"
  shows "\<exists>peaks R. length peaks = length xs
           \<and> (\<forall>i<length xs. np_argmax (np_abs (xs ! i)) = Inr (peaks ! i))
           \<and> get_peaks g t A = Inr peaks
           \<and> align_peaks g t A = Inr R \<and> nrows R = L \<and> ncols R = length xs
           \<and> (\<forall>i<length xs.
                 column R i = Inr (drop (peaks ! i - Min (set peaks)) (xs ! i)
                                   @ replicate (peaks ! i - Min (set peaks)) 0)
                 \<and> is_first_max (np_abs (drop (peaks ! i - Min (set peaks)) (xs ! i)
                                   @ replicate (peaks ! i - Min (set peaks)) 0)) (Min (set peaks)))"
proof -
  let ?n = "length xs"
  have "\<forall>i<?n. \<exists>k. np_argmax (np_abs (xs ! i)) = Inr k \<and> is_first_max (np_abs (xs ! i)) k"
  proof (intro allI impI)
    fix i assume "i < ?n"
    with uni have "length (xs ! i) = L" by simp
    with L have "np_abs (xs ! i) \<noteq> []" by (auto simp: np_abs_def)
    then show "\<exists>k. np_argmax (np_abs (xs ! i)) = Inr k \<and> is_first_max (np_abs (xs ! i)) k"
      by (rule np_argmax_first_max)
  qed
  then obtain pk where pk: "\<And>i. i < ?n \<Longrightarrow> np_argmax (np_abs (xs ! i)) = Inr (pk i)"
      and pkm: "\<And>i. i < ?n \<Longrightarrow> is_first_max (np_abs (xs ! i)) (pk i)"
    by metis
  have pkL: "pk i < L" if "i < ?n" for i
    using pkm[OF that] uni that by (simp add: is_first_max_def np_abs_def)
  define peaks where "peaks = map pk [0..<?n]"
  have lp: "length peaks = ?n" by (simp add: peaks_def)
  have pn: "peaks ! i = pk i" if "i < ?n" for i using that by (simp add: peaks_def)
  have col: "column A i = Inr (xs ! i)" if "i < ?n" for i
    unfolding column_def A_def using slice_col_transpose_uniform[OF that uni, of 0] by simp
  have gp: "get_peaks g t A = Inr peaks"
    unfolding get_peaks_def peaks_def n
  proof (rule collect_Inr)
    fix i assume "i \<in> set [0..<?n]"
    then have i: "i < ?n" by simp
    show "(case column A i of Inl e \<Rightarrow> Inl e
           | Inr h \<Rightarrow> (case get_peak (times_global g) h of Inl e \<Rightarrow> Inl e
                        | Inr (arg, t_peak, h_peak) \<Rightarrow> Inr arg)) = Inr (pk i)"
      using col[OF i] pk[OF i] pkL[OF i] by (simp add: get_peak_def tl)
  qed
  define m where "m = Min (set peaks)"
  have pne: "peaks \<noteq> []" using ne lp by auto
  have pm: "py_min peaks = Inr m" unfolding m_def by (rule py_min_Min[OF pne])
  have m_le: "m \<le> pk i" if "i < ?n" for i
  proof -
    have "pk i \<in> set peaks" using that lp pn by (metis nth_mem)
    then show ?thesis unfolding m_def by simp
  qed
  have "m \<in> set peaks" unfolding m_def using pne by simp
  then obtain i0 where i0: "i0 < ?n" "pk i0 = m"
    using lp pn by (metis in_set_conv_nth)
  define aligned where "aligned = map (\<lambda>i. drop (pk i - m) (xs ! i)) [0..<?n]"
  have la: "length aligned = ?n" by (simp add: aligned_def)
  have an: "aligned ! i = drop (pk i - m) (xs ! i)" if "i < ?n" for i
    using that by (simp add: aligned_def)
  have sl: "collect (\<lambda>i. slice_col A (peaks ! i - m) i) [0..<num_train_samples g] = Inr aligned"
    unfolding aligned_def n
  proof (rule collect_Inr)
    fix i assume "i \<in> set [0..<?n]"
    then have i: "i < ?n" by simp
    show "slice_col A (peaks ! i - m) i = Inr (drop (pk i - m) (xs ! i))"
      unfolding A_def pn[OF i] by (rule slice_col_transpose_uniform[OF i uni])
  qed
  have ane: "aligned \<noteq> []" using ne la by auto
  have lens: "length (aligned ! i) = L - (pk i - m)" if "i < ?n" for i
    using that uni by (simp add: an)
  have maxL: "Max (set (map length aligned)) = L"
  proof (rule Max_eqI)
    show "finite (set (map length aligned))" by simp
    show "y \<le> L" if "y \<in> set (map length aligned)" for y
    proof -
      from that obtain i where "i < ?n" "y = length (aligned ! i)"
        using la by (auto simp: in_set_conv_nth)
      then show ?thesis using lens by simp
    qed
    have "length (aligned ! i0) = L" using lens[OF i0(1)] i0(2) by simp
    moreover have "aligned ! i0 \<in> set aligned" using i0(1) la by simp
    ultimately show "L \<in> set (map length aligned)" by force
  qed
  from common_time_grid_columns[OF ane, of "1 / 10"] obtain ts R where
    ctg: "common_time_grid aligned (1 / 10) = Inr (ts, R)" and
    nc: "ncols R = length aligned" and nr: "nrows R = Max (set (map length aligned))" and
    cR: "\<forall>i<length aligned. column R i = Inr (aligned ! i @ replicate (nrows R - length (aligned ! i)) 0)"
    by blast
  have ap: "align_peaks g t A = Inr R"
    by (simp add: align_peaks_def gp pm sl ctg)
  have colR: "column R i = Inr (drop (pk i - m) (xs ! i) @ replicate (pk i - m) 0)" if "i < ?n" for i
  proof -
    have "L - (L - (pk i - m)) = pk i - m" using pkL[OF that] by simp
    then show ?thesis using cR that la nr maxL lens[OF that] an[OF that] by simp
  qed
  have fmR: "is_first_max (np_abs (drop (pk i - m) (xs ! i) @ replicate (pk i - m) 0)) m" if "i < ?n" for i
    by (rule shifted_first_max[OF pkm[OF that] m_le[OF that]])
  show ?thesis
    apply (rule exI[of _ peaks], rule exI[of _ R])
    using lp pk pn gp ap nr maxL nc la colR fmR
    by (simp add: m_def[symmetric])
qed

section \<open>Properties of the saved files and of one-hot rows\<close>

lemma load_after_save:
  "np_load name (np_save name d nb) = Inr d"
  by (simp add: np_load_def np_save_def)

lemma load_other:
  "name \<noteq> name' \<Longrightarrow> np_load name (np_save name' d nb) = np_load name nb"
  by (simp add: np_load_def np_save_def)

lemma load_record_call: "np_load name (record_call c nb) = np_load name nb"
  by (simp add: np_load_def record_call_def)

lemma one_hot_argmax:
  assumes "k < n"
  shows "np_argmax ((replicate n 0)[k := 1]) = Inr k"
proof -
  let ?r = "(replicate n (0::real))[k := 1]"
  have at: "?r ! k = 1" using assms by simp
  have le: "\<forall>j<length ?r. ?r ! j \<le> 1" using assms by (auto simp: nth_list_update)
  have lt: "\<forall>j<k. ?r ! j < 1" using assms by (auto simp: nth_list_update)
  have "is_first_max ?r k"
    unfolding is_first_max_def at using assms le lt by simp
  moreover have "?r \<noteq> []" using assms by auto
  ultimately show ?thesis by (simp add: np_argmax_iff)
qed

section \<open>Properties of the classifier cells\<close>

lemma to_categorical_in_range:
  assumes "x \<noteq> []" and "0 < C" and "\<forall>v\<in>set x. 0 \<le> v \<and> v < int C"
  shows "\<exists>Y. to_categorical x C = Inr Y \<and> nrows Y = length x"
proof -
  have "collect (\<lambda>i. one_hot_row C (x ! i)) [0..<length x]
          = Inr (map (\<lambda>i. (replicate C 0)[nat (x ! i) := 1]) [0..<length x])"
  proof (rule collect_Inr)
    fix i assume "i \<in> set [0..<length x]"
    then have "x ! i \<in> set x" by simp
    with assms(3) have "0 \<le> x ! i" "x ! i < int C" by auto
    then show "one_hot_row C (x ! i) = Inr ((replicate C 0)[nat (x ! i) := 1])"
      by (simp add: one_hot_row_def)
  qed
  then show ?thesis using assms(1,2) by (simp add: to_categorical_def)
qed

lemma select_rows_ncols:
  "select_rows A idx = Inr B \<Longrightarrow> ncols B = ncols A"
  by (auto simp: select_rows_def split: sum.splits)

lemma select_rows_in_range:
  assumes "\<forall>p\<in>set idx. p < nrows A"
  shows "\<exists>B. select_rows A idx = Inr B"
proof -
  have "collect (\<lambda>k. if idx ! k < nrows A then Inr (rows A ! (idx ! k)) else Inl IndexError)
          [0..<length idx] = Inr (map (\<lambda>k. rows A ! (idx ! k)) [0..<length idx])"
  proof (rule collect_Inr)
    fix k assume "k \<in> set [0..<length idx]"
    then have "idx ! k \<in> set idx" by simp
    with assms have "idx ! k < nrows A" by blast
    then show "(if idx ! k < nrows A then Inr (rows A ! (idx ! k)) else Inl IndexError)
                 = Inr (rows A ! (idx ! k))"
      by simp
  qed
  then show ?thesis by (simp add: select_rows_def)
qed

lemma train_test_split_ncols:
  assumes "train_test_split permutation X Y = Inr (X_train, X_test, y_train, y_test)"
  shows "ncols X_train = ncols X"
proof -
  from assms obtain idx where "select_rows X idx = Inr X_train"
    by (auto simp: train_test_split_def Let_def split: if_splits sum.splits)
  then show ?thesis by (rule select_rows_ncols)
qed

lemma train_test_split_two_rows:
  assumes n: "2 \<le> nrows X" and same: "nrows Y = nrows X"
    and perm: "\<forall>p\<in>set permutation. p < nrows X"
  shows "\<exists>r. train_test_split permutation X Y = Inr r"
proof -
  let ?n = "nrows X"
  let ?te = "take ((?n + 3) div 4) permutation"
  let ?tr = "take (?n - (?n + 3) div 4) (drop ((?n + 3) div 4) permutation)"
  have pos: "?n - (?n + 3) div 4 \<noteq> 0" using n by presburger
  have te: "\<forall>p\<in>set ?te. p < ?n" using perm by (meson in_set_takeD)
  have tr: "\<forall>p\<in>set ?tr. p < ?n" using perm by (meson in_set_takeD in_set_dropD)
  from select_rows_in_range[OF tr] obtain a where a: "select_rows X ?tr = Inr a" by blast
  from select_rows_in_range[OF te] obtain b where b: "select_rows X ?te = Inr b" by blast
  from tr same have "\<forall>p\<in>set ?tr. p < nrows Y" by simp
  from select_rows_in_range[OF this] obtain c where c: "select_rows Y ?tr = Inr c" by blast
  from te same have "\<forall>p\<in>set ?te. p < nrows Y" by simp
  from select_rows_in_range[OF this] obtain d where d: "select_rows Y ?te = Inr d" by blast
  show ?thesis
    using pos same a b c d by (simp add: train_test_split_def Let_def)
qed

lemma classifier_layers_Inr:
  "classifier_layers input_dim n_classes = Inr model \<longleftrightarrow>
     0 < n_classes
     \<and> model = [Dense 32 Tanh (Some input_dim), Dense 16 Tanh None, Dense n_classes Softmax None]"
  by (auto simp: classifier_layers_def dense_def)

section \<open>Claims\<close>

text \<open>
  C1. The workflow runs three stages in a fixed order: the functional hyperparameters
  first, then size and shape with the stage-1 best parameters held fixed and num_epochs
  set to 100 in the fixed dictionary, then the training-dataset optimisation with the
  merged dictionary best_functional | best_shape, in which every key of both
  dictionaries takes its value from best_shape. The training partition has the 240
  samples that the assertion of the third stage asks for.
\<close>

theorem staged_workflow_order:
  fixes ext :: externals
  defines "bf \<equiv> functional_best ext functional_options_dict fixed_dict_functional 50"
  defines "fixed \<equiv> dict_set ''num_epochs'' (PInt 100) bf"
  defines "bs \<equiv> shape_best ext shape_options_dict fixed 100"
  shows "\<exists>nb'. surrogate_workflow ext nb 240 = Inr nb'
           \<and> calls nb' = calls nb @
                [FunctionalStudy functional_options_dict fixed_dict_functional 50,
                 ShapeStudy shape_options_dict fixed 100,
                 TrainIteration (replicate 10 24) (dict_or bf bs) 100]
           \<and> fixed ''num_epochs'' = Some (PInt 100)
           \<and> (\<forall>k. k \<noteq> ''num_epochs'' \<longrightarrow> fixed k = bf k)
           \<and> (\<forall>k. k \<in> dom bf \<inter> dom bs
                  \<longrightarrow> dict_or bf bs k = bs k)
           \<and> (\<forall>k. k \<notin> dom bs \<longrightarrow> dict_or bf bs k = bf k)"
proof -
  have sizes: "append_sizes_cell 240 = Inr (replicate 10 24)"
    by (simp add: append_sizes_cell_def append_sizes_def sum_list_replicate)
  have ne: "''best_functional_hyper.npy'' \<noteq> ''best_shape_hyper.npy''" by simp
  have wf: "surrogate_workflow ext nb 240
              = Inr (record_call (TrainIteration (replicate 10 24) (dict_or bf bs) 100)
                      (np_save ''best_shape_hyper.npy'' bs
                        (record_call (ShapeStudy shape_options_dict fixed 100)
                          (np_save ''best_functional_hyper.npy'' bf
                            (record_call (FunctionalStudy functional_options_dict fixed_dict_functional 50) nb)))))"
    unfolding surrogate_workflow_def optimise_functional_def optimise_shape_def optimise_dataset_def
    by (simp add: Let_def load_after_save load_other[OF ne] load_record_call sizes
          bf_def[symmetric] fixed_def[symmetric] bs_def[symmetric])
  have c: "calls (record_call (TrainIteration (replicate 10 24) (dict_or bf bs) 100)
                      (np_save ''best_shape_hyper.npy'' bs
                        (record_call (ShapeStudy shape_options_dict fixed 100)
                          (np_save ''best_functional_hyper.npy'' bf
                            (record_call (FunctionalStudy functional_options_dict fixed_dict_functional 50) nb)))))
           = calls nb @
                [FunctionalStudy functional_options_dict fixed_dict_functional 50,
                 ShapeStudy shape_options_dict fixed 100,
                 TrainIteration (replicate 10 24) (dict_or bf bs) 100]"
    by (simp add: record_call_def np_save_def)
  have f1: "fixed ''num_epochs'' = Some (PInt 100)"
    by (simp add: fixed_def dict_set_def)
  have f2: "\<forall>k. k \<noteq> ''num_epochs'' \<longrightarrow> fixed k = bf k"
    by (simp add: fixed_def dict_set_def)
  have m1: "\<forall>k. k \<in> dom bf \<inter> dom bs \<longrightarrow> dict_or bf bs k = bs k"
    by (auto simp: dict_or_def map_add_def split: option.splits)
  have m2: "\<forall>k. k \<notin> dom bs \<longrightarrow> dict_or bf bs k = bf k"
    by (auto simp: dict_or_def map_add_def split: option.splits)
  from wf c f1 f2 m1 m2 show ?thesis by blast
qed

theorem staged_workflow_order_witness:
  "append_sizes_cell 240 = Inr (replicate 10 24)
   \<and> (\<exists>nb'. surrogate_workflow
          \<lparr>functional_best = (\<lambda>opts fixed n. [''activation'' \<mapsto> PStr ''tanh'', ''batch_size'' \<mapsto> PInt 16]),
           shape_best = (\<lambda>opts fixed n. [''batch_size'' \<mapsto> PInt 8, ''num_hidden_layers'' \<mapsto> PInt 4])\<rparr>
          \<lparr>files = Map.empty, calls = []\<rparr> 240 = Inr nb'
        \<and> calls nb' =
             [FunctionalStudy functional_options_dict fixed_dict_functional 50,
              ShapeStudy shape_options_dict
                [''activation'' \<mapsto> PStr ''tanh'', ''batch_size'' \<mapsto> PInt 16, ''num_epochs'' \<mapsto> PInt 100] 100,
              TrainIteration (replicate 10 24)
                [''activation'' \<mapsto> PStr ''tanh'', ''batch_size'' \<mapsto> PInt 8, ''num_hidden_layers'' \<mapsto> PInt 4] 100])"
proof -
  let ?ext = "\<lparr>functional_best = (\<lambda>opts fixed n. [''activation'' \<mapsto> PStr ''tanh'', ''batch_size'' \<mapsto> PInt 16]),
           shape_best = (\<lambda>opts fixed n. [''batch_size'' \<mapsto> PInt 8, ''num_hidden_layers'' \<mapsto> PInt 4])\<rparr>"
  have h: "append_sizes_cell 240 = Inr (replicate 10 24)"
    by (simp add: append_sizes_cell_def append_sizes_def sum_list_replicate)
  have m: "dict_or [''activation'' \<mapsto> PStr ''tanh'', ''batch_size'' \<mapsto> PInt 16]
             [''batch_size'' \<mapsto> PInt 8, ''num_hidden_layers'' \<mapsto> PInt 4]
           = [''activation'' \<mapsto> PStr ''tanh'', ''batch_size'' \<mapsto> PInt 8, ''num_hidden_layers'' \<mapsto> PInt 4]"
    by (auto simp: dict_or_def map_add_def fun_eq_iff)
  from staged_workflow_order[of ?ext "\<lparr>files = Map.empty, calls = []\<rparr>"] h m
  show ?thesis by (simp add: dict_set_def)
qed

text \<open>
  C2 (as amended). For every non-empty list of waveforms padded by common_time_grid to a
  common length L >= 1, with the global num_train_samples equal to the number of
  waveforms and the global times the returned time grid, align_peaks returns an array of
  the same shape in which every column attains the maximum of its absolute values at the
  same row, the minimum over the input columns of the index of each column's first
  maximum; column i of the result is column i of the input without its first
  (peak_i - min_peak) entries, followed by that many zeros.
\<close>

theorem align_peaks_aligns:
  assumes ne: "ws \<noteq> []" and ctg: "common_time_grid ws dt = Inr (ts, A)" and pos: "0 < nrows A"
    and n: "num_train_samples g = length ws" and tg: "times_global g = ts"
  shows "\<exists>cols peaks R.
           length cols = length ws \<and> length peaks = length ws
           \<and> (\<forall>i<length ws. column A i = Inr (cols ! i) \<and> length (cols ! i) = nrows A
                  \<and> np_argmax (np_abs (cols ! i)) = Inr (peaks ! i))
           \<and> get_peaks g t A = Inr peaks
           \<and> align_peaks g t A = Inr R \<and> nrows R = nrows A \<and> ncols R = length ws
           \<and> (\<forall>i<length ws. \<exists>c. column R i = Inr c
                  \<and> c = drop (peaks ! i - Min (set peaks)) (cols ! i)
                        @ replicate (peaks ! i - Min (set peaks)) 0
                  \<and> np_argmax (np_abs c) = Inr (Min (set peaks))
                  \<and> (\<forall>j<length c. \<bar>c ! j\<bar> \<le> \<bar>c ! Min (set peaks)\<bar>))"
proof -
  let ?L = "longest_waveform ws"
  let ?P = "pad_waveforms ?L ws"
  have lenP: "length ?P = length ws" by (simp add: pad_waveforms_def)
  from common_time_grid_eq[OF ne, of dt] ctg
  have ts: "ts = arange_times ?L dt"
    and A: "A = np_transpose \<lparr>nrows = length ?P, ncols = ?L, rows = ?P\<rparr>"
    by (simp_all add: lenP)
  have rA: "nrows A = ?L" by (simp add: A np_transpose_def)
  have Pne: "?P \<noteq> []" using ne lenP by auto
  have uni: "\<forall>x\<in>set ?P. length x = ?L" by (simp add: pad_waveforms_length)
  have L: "0 < ?L" using pos rA by simp
  have n': "num_train_samples g = length ?P" using n lenP by simp
  have tl: "length (times_global g) = ?L" by (simp add: tg ts arange_times_def)
  from align_peaks_uniform[OF Pne uni L n' tl, of t] obtain peaks R where
    lp: "length peaks = length ?P" and
    am: "\<forall>i<length ?P. np_argmax (np_abs (?P ! i)) = Inr (peaks ! i)" and
    gp: "get_peaks g t A = Inr peaks" and
    ap: "align_peaks g t A = Inr R" and nr: "nrows R = ?L" and nc: "ncols R = length ?P" and
    cR: "\<forall>i<length ?P.
           column R i = Inr (drop (peaks ! i - Min (set peaks)) (?P ! i)
                             @ replicate (peaks ! i - Min (set peaks)) 0)
           \<and> is_first_max (np_abs (drop (peaks ! i - Min (set peaks)) (?P ! i)
                             @ replicate (peaks ! i - Min (set peaks)) 0)) (Min (set peaks))"
    unfolding A by blast
  have colA: "column A i = Inr (?P ! i)" if "i < length ws" for i
  proof -
    have "slice_col A 0 i = Inr (drop 0 (?P ! i))"
      unfolding A by (rule slice_col_transpose_uniform) (use that lenP uni in simp_all)
    then show ?thesis by (simp add: column_def)
  qed
  have lenPi: "length (?P ! i) = nrows A" if "i < length ws" for i
    using that lenP uni rA by simp
  have fm: "np_argmax (np_abs c) = Inr m \<and> (\<forall>j<length c. \<bar>c ! j\<bar> \<le> \<bar>c ! m\<bar>)"
    if "is_first_max (np_abs c) m" for c m
  proof -
    have len: "length (np_abs c) = length c" by (simp add: np_abs_def)
    from that have m: "m < length c" and le: "\<forall>j<length c. np_abs c ! j \<le> np_abs c ! m"
      unfolding is_first_max_def len by blast+
    have nth: "np_abs c ! j = \<bar>c ! j\<bar>" if "j < length c" for j
      using that by (simp add: np_abs_def)
    from m have "np_abs c \<noteq> []" by (auto simp: np_abs_def)
    with that have "np_argmax (np_abs c) = Inr m" by (simp add: np_argmax_iff)
    moreover from le m have "\<forall>j<length c. \<bar>c ! j\<bar> \<le> \<bar>c ! m\<bar>"
      by (metis nth)
    ultimately show ?thesis by simp
  qed
  show ?thesis
    apply (rule exI[of _ ?P], rule exI[of _ peaks], rule exI[of _ R])
    using lenP lp am gp ap nr nc cR colA lenPi rA fm by simp
qed

theorem align_peaks_aligns_witness:
  "[[1, 3, 2], [5, 1::real]] \<noteq> []
   \<and> common_time_grid [[1, 3, 2], [5, 1]] (1 / 10)
       = Inr ([0, 1 / 10, 1 / 5], \<lparr>nrows = 3, ncols = 2, rows = [[1, 5], [3, 1], [2, 0]]\<rparr>)
   \<and> align_peaks \<lparr>num_train_samples = 2, times_global = [0, 1 / 10, 1 / 5]\<rparr> []
        \<lparr>nrows = 3, ncols = 2, rows = [[1, 5], [3, 1], [2, 0]]\<rparr>
       = Inr \<lparr>nrows = 3, ncols = 2, rows = [[3, 5], [2, 1], [0, 0]]\<rparr>
   \<and> (\<exists>peaks R.
          get_peaks \<lparr>num_train_samples = 2, times_global = [0, 1 / 10, 1 / 5]\<rparr> []
             \<lparr>nrows = 3, ncols = 2, rows = [[1, 5], [3, 1], [2, 0]]\<rparr> = Inr peaks
          \<and> align_peaks \<lparr>num_train_samples = 2, times_global = [0, 1 / 10, 1 / 5]\<rparr> []
               \<lparr>nrows = 3, ncols = 2, rows = [[1, 5], [3, 1], [2, 0]]\<rparr> = Inr R
          \<and> nrows R = 3 \<and> ncols R = 2
          \<and> (\<forall>i<2. \<exists>c. column R i = Inr c \<and> np_argmax (np_abs c) = Inr (Min (set peaks))))"
proof -
  let ?ws = "[[1, 3, 2], [5, 1::real]]"
  let ?A = "\<lparr>nrows = 3, ncols = 2, rows = [[1, 5], [3, 1], [2, 0::real]]\<rparr>"
  let ?g = "\<lparr>num_train_samples = 2, times_global = [0, 1 / 10, 1 / 5]\<rparr>"
  have h1: "?ws \<noteq> []" by simp
  have h2: "common_time_grid ?ws (1 / 10) = Inr ([0, 1 / 10, 1 / 5], ?A)"
    by (simp add: common_time_grid_def longest_waveform_def pad_waveforms_def np_append_def
          np_zeros_def arange_times_def np_vstack_def np_transpose_def Let_def upt_rec
          align_peaks_def get_peaks_def get_peak_def column_def slice_col_def np_argmax_def
          np_abs_def py_min_def)
  have h3: "0 < nrows ?A" by simp
  have h4: "num_train_samples ?g = length ?ws" by simp
  have h5: "times_global ?g = [0, 1 / 10, 1 / 5]" by simp
  have ev: "align_peaks ?g [] ?A = Inr \<lparr>nrows = 3, ncols = 2, rows = [[3, 5], [2, 1], [0, 0]]\<rparr>"
    by (simp add: common_time_grid_def longest_waveform_def pad_waveforms_def np_append_def
          np_zeros_def arange_times_def np_vstack_def np_transpose_def Let_def upt_rec
          align_peaks_def get_peaks_def get_peak_def column_def slice_col_def np_argmax_def
          np_abs_def py_min_def)
  have l2: "length ?ws = 2" by simp
  from align_peaks_aligns[OF h1 h2 h3 h4 h5, of "[]"] obtain cols peaks R where
    gp: "get_peaks ?g [] ?A = Inr peaks" and ap: "align_peaks ?g [] ?A = Inr R" and
    nr: "nrows R = nrows ?A" and nc: "ncols R = length ?ws" and
    cR: "\<forall>i<length ?ws. \<exists>c. column R i = Inr c
           \<and> c = drop (peaks ! i - Min (set peaks)) (cols ! i)
                 @ replicate (peaks ! i - Min (set peaks)) 0
           \<and> np_argmax (np_abs c) = Inr (Min (set peaks))
           \<and> (\<forall>j<length c. \<bar>c ! j\<bar> \<le> \<bar>c ! Min (set peaks)\<bar>)"
    by blast
  from cR have "\<forall>i<2. \<exists>c. column R i = Inr c \<and> np_argmax (np_abs c) = Inr (Min (set peaks))"
    unfolding l2 by blast
  moreover from nr have "nrows R = 3" by simp
  moreover from nc have "ncols R = 2" unfolding l2 .
  ultimately have "\<exists>peaks R.
          get_peaks ?g [] ?A = Inr peaks \<and> align_peaks ?g [] ?A = Inr R
          \<and> nrows R = 3 \<and> ncols R = 2
          \<and> (\<forall>i<2. \<exists>c. column R i = Inr c \<and> np_argmax (np_abs c) = Inr (Min (set peaks)))"
    using gp ap by blast
  with h1 h2 ev show ?thesis by blast
qed

text \<open>
  The claim as first stated ranges over every common length, L = 0 included: one empty
  waveform is padded to an array with no rows and one column, and align_peaks raises
  ValueError there, since np.argmax rejects an empty column.
\<close>

theorem align_peaks_empty_counterexample:
  "common_time_grid [[]] (1 / 10) = Inr ([], \<lparr>nrows = 0, ncols = 1, rows = []\<rparr>)
   \<and> align_peaks \<lparr>num_train_samples = 1, times_global = []\<rparr> []
        \<lparr>nrows = 0, ncols = 1, rows = []\<rparr> = Inl ValueError"
  by (simp add: common_time_grid_def longest_waveform_def pad_waveforms_def np_append_def
          np_zeros_def arange_times_def np_vstack_def np_transpose_def Let_def upt_rec
          align_peaks_def get_peaks_def get_peak_def column_def slice_col_def np_argmax_def
          np_abs_def py_min_def)

text \<open>
  C3. For every non-empty list of 1-D waveforms and every dt, common_time_grid returns
  a pair (times, A): A has one column per input waveform, its number of rows L is the
  maximum input length, column i is waveform i followed by L - len(waveform i) zeros,
  and times is [0, dt, 2*dt, ..., (L-1)*dt].
\<close>

theorem common_time_grid_pads:
  assumes "ws \<noteq> []"
  shows "\<exists>ts A. common_time_grid ws dt = Inr (ts, A)
           \<and> ncols A = length ws
           \<and> nrows A = Max (set (map length ws))
           \<and> (\<forall>i<length ws.
                 column A i = Inr (ws ! i @ replicate (nrows A - length (ws ! i)) 0)
                 \<and> take (length (ws ! i)) (ws ! i @ replicate (nrows A - length (ws ! i)) 0) = ws ! i)
           \<and> length ts = nrows A
           \<and> (\<forall>k<nrows A. ts ! k = real k * dt)"
proof -
  from common_time_grid_columns[OF assms, of dt] obtain ts A where
    "common_time_grid ws dt = Inr (ts, A)" "ncols A = length ws"
    "nrows A = Max (set (map length ws))"
    "\<forall>i<length ws. column A i = Inr (ws ! i @ replicate (nrows A - length (ws ! i)) 0)"
    "ts = arange_times (nrows A) dt"
    by blast
  then show ?thesis by (simp add: arange_times_def)
qed

theorem common_time_grid_pads_witness:
  "[[1, 2, 3], [4::real]] \<noteq> []
   \<and> common_time_grid [[1, 2, 3], [4]] (1 / 2)
       = Inr ([0, 1 / 2, 1], \<lparr>nrows = 3, ncols = 2, rows = [[1, 4], [2, 0], [3, 0]]\<rparr>)
   \<and> (\<exists>ts A. common_time_grid [[1, 2, 3], [4]] (1 / 2) = Inr (ts, A)
           \<and> ncols A = length [[1, 2, 3], [4::real]]
           \<and> nrows A = Max (set (map length [[1, 2, 3], [4::real]]))
           \<and> (\<forall>i<length [[1, 2, 3], [4::real]].
                 column A i = Inr ([[1, 2, 3], [4::real]] ! i
                                   @ replicate (nrows A - length ([[1, 2, 3], [4::real]] ! i)) 0)
                 \<and> take (length ([[1, 2, 3], [4::real]] ! i))
                      ([[1, 2, 3], [4::real]] ! i
                       @ replicate (nrows A - length ([[1, 2, 3], [4::real]] ! i)) 0)
                    = [[1, 2, 3], [4::real]] ! i)
           \<and> length ts = nrows A
           \<and> (\<forall>k<nrows A. ts ! k = real k * (1 / 2)))"
proof -
  have ne: "[[1, 2, 3], [4::real]] \<noteq> []" by simp
  have ev: "common_time_grid [[1, 2, 3], [4]] (1 / 2)
              = Inr ([0, 1 / 2, 1], \<lparr>nrows = 3, ncols = 2, rows = [[1, 4], [2, 0], [3, 0]]\<rparr>)"
    by (simp add: common_time_grid_def longest_waveform_def pad_waveforms_def np_append_def
          np_zeros_def arange_times_def np_vstack_def np_transpose_def Let_def upt_rec)
  show ?thesis
    by (intro conjI ne ev) (rule common_time_grid_pads[OF ne])
qed

text \<open>
  C4. With num_iterations = 10 and a training partition of 240 samples, append_sizes
  sums to exactly 240, so the assertion of the cell does not fail; and for every n and
  every k >= 1 the sizes sum to k * (n // k), which is at most n.
\<close>

theorem append_sizes_sum:
  "append_sizes_cell 240 = Inr (replicate 10 24)
   \<and> sum_list (replicate 10 (24::nat)) = 240
   \<and> (1 \<le> k \<longrightarrow>
        (\<exists>sizes. append_sizes n k = Inr sizes
            \<and> length sizes = k
            \<and> sum_list sizes = k * (n div k)
            \<and> sum_list sizes \<le> n))"
  by (simp add: append_sizes_cell_def append_sizes_def sum_list_replicate)

theorem append_sizes_sum_witness:
  "(1::nat) \<le> 7
   \<and> (\<exists>sizes. append_sizes 240 7 = Inr sizes
          \<and> length sizes = 7 \<and> sum_list sizes = 238 \<and> sum_list sizes \<le> 240)"
  using append_sizes_sum[of 7 240] by simp

text \<open>
  C5 (as amended). For every non-empty vector of integer class labels with values in
  {0, ..., C-1}, C the number of distinct labels, to_categorical(y, num_classes=C)
  followed by np.argmax along axis 1 returns y.
\<close>

theorem one_hot_round_trip:
  assumes ne: "y \<noteq> []" and rng: "\<forall>v\<in>set y. 0 \<le> v \<and> v < int (output_classes y)"
  shows "\<exists>Y decoded. to_categorical y (output_classes y) = Inr Y
           \<and> nrows Y = length y \<and> ncols Y = output_classes y
           \<and> np_argmax_axis1 Y = Inr decoded
           \<and> map int decoded = y"
proof -
  let ?C = "output_classes y"
  let ?rs = "map (\<lambda>i. (replicate ?C (0::real))[nat (y ! i) := 1]) [0..<length y]"
  let ?Y = "\<lparr>nrows = length y, ncols = ?C, rows = ?rs\<rparr>"
  have C: "0 < ?C" using ne by (simp add: output_classes_def)
  have enc: "collect (\<lambda>i. one_hot_row ?C (y ! i)) [0..<length y] = Inr ?rs"
  proof (rule collect_Inr)
    fix i assume "i \<in> set [0..<length y]"
    then have "y ! i \<in> set y" by simp
    with rng have "0 \<le> y ! i" "y ! i < int ?C" by auto
    then show "one_hot_row ?C (y ! i) = Inr ((replicate ?C 0)[nat (y ! i) := 1])"
      by (simp add: one_hot_row_def)
  qed
  have tc: "to_categorical y ?C = Inr ?Y"
    using C ne by (simp add: to_categorical_def enc)
  have dec: "collect (\<lambda>i. np_argmax (rows ?Y ! i)) [0..<nrows ?Y]
               = Inr (map (\<lambda>i. nat (y ! i)) [0..<length y])"
    unfolding ndarray2.simps
  proof (rule collect_Inr)
    fix i assume i: "i \<in> set [0..<length y]"
    then have "y ! i \<in> set y" by simp
    with rng have "0 \<le> y ! i" "y ! i < int ?C" by auto
    then have "nat (y ! i) < ?C" by simp
    then have "np_argmax ((replicate ?C 0)[nat (y ! i) := 1]) = Inr (nat (y ! i))"
      by (rule one_hot_argmax)
    with i show "np_argmax (?rs ! i) = Inr (nat (y ! i))" by simp
  qed
  have am: "np_argmax_axis1 ?Y = Inr (map (\<lambda>i. nat (y ! i)) [0..<length y])"
    using C dec by (simp add: np_argmax_axis1_def)
  have "map int (map (\<lambda>i. nat (y ! i)) [0..<length y]) = map (\<lambda>i. y ! i) [0..<length y]"
    using rng by simp
  also have "\<dots> = y" by (rule map_nth)
  finally have rt: "map int (map (\<lambda>i. nat (y ! i)) [0..<length y]) = y" .
  from tc am rt show ?thesis by auto
qed

theorem one_hot_round_trip_witness:
  "[2, 0, 1, 0::int] \<noteq> []
   \<and> list_all (\<lambda>v. 0 \<le> v \<and> v < int (output_classes [2, 0, 1, 0::int])) [2, 0, 1, 0]
   \<and> to_categorical [2, 0, 1, 0] (output_classes [2, 0, 1, 0::int])
       = Inr \<lparr>nrows = 4, ncols = 3, rows = [[0, 0, 1], [1, 0, 0], [0, 1, 0], [1, 0, 0]]\<rparr>
   \<and> np_argmax_axis1 \<lparr>nrows = 4, ncols = 3, rows = [[0, 0, 1], [1, 0, 0], [0, 1, 0], [1, 0, 0]]\<rparr>
       = Inr [2, 0, 1, 0]
   \<and> (\<exists>Y decoded. to_categorical [2, 0, 1, 0] (output_classes [2, 0, 1, 0::int]) = Inr Y
          \<and> nrows Y = length [2, 0, 1, 0::int] \<and> ncols Y = output_classes [2, 0, 1, 0::int]
          \<and> np_argmax_axis1 Y = Inr decoded
          \<and> map int decoded = [2, 0, 1, 0])"
proof -
  have h1: "[2, 0, 1, 0::int] \<noteq> []" by simp
  have h2: "\<forall>v\<in>set [2, 0, 1, 0::int]. 0 \<le> v \<and> v < int (output_classes [2, 0, 1, 0::int])"
    by (simp add: output_classes_def)
  have ev: "to_categorical [2, 0, 1, 0] (output_classes [2, 0, 1, 0::int])
              = Inr \<lparr>nrows = 4, ncols = 3, rows = [[0, 0, 1], [1, 0, 0], [0, 1, 0], [1, 0, 0]]\<rparr>
            \<and> np_argmax_axis1 \<lparr>nrows = 4, ncols = 3, rows = [[0, 0, 1], [1, 0, 0], [0, 1, 0], [1, 0, 0]]\<rparr>
              = Inr [2, 0, 1, 0]"
    by (simp add: to_categorical_def output_classes_def np_argmax_axis1_def one_hot_row_def
          np_argmax_def upt_rec eval_nat_numeral)
  have h2': "list_all (\<lambda>v. 0 \<le> v \<and> v < int (output_classes [2, 0, 1, 0::int])) [2, 0, 1, 0]"
    using h2 by (simp only: list_all_iff)
  show ?thesis
    using h1 h2' ev one_hot_round_trip[OF h1 h2] by blast
qed

text \<open>
  The claim as first stated ranges over every vector, the empty one included: there C = 0,
  to_categorical raises ValueError, and np.argmax along axis 1 of an array with no
  columns raises ValueError as well.
\<close>

theorem one_hot_empty_counterexample:
  "to_categorical [] (output_classes ([]::int list)) = Inl ValueError
   \<and> np_argmax_axis1 \<lparr>nrows = 0, ncols = 0, rows = []\<rparr> = Inl ValueError"
  by (simp add: to_categorical_def output_classes_def np_argmax_axis1_def)

text \<open>
  C6 (as amended). For every data matrix with at least two columns, X consists of all
  columns except the last and y is exactly the last column, so that no column of X is
  the column of the class labels. Whenever the cells up to the model run without an
  exception, the model's last layer has one unit per distinct class value and softmax
  activation; they do run when the matrix has at least two rows, the labels are the
  integers 0, ..., C-1 for C distinct labels, and the permutation drawn by the
  train/test split holds row indices only.
\<close>

theorem features_exclude_label:
  assumes wf: "wf_array data" and two: "2 \<le> ncols data"
  shows "\<exists>X y. split_features_target data = Inr (X, y)
           \<and> wf_array X \<and> nrows X = nrows data \<and> ncols X = ncols data - 1
           \<and> length y = nrows data
           \<and> (\<forall>i<nrows data.
                  rows data ! i = rows X ! i @ [y ! i]
                  \<and> y ! i = rows data ! i ! (ncols data - 1)
                  \<and> (\<forall>j<ncols X. rows X ! i ! j = rows data ! i ! j \<and> j \<noteq> ncols data - 1))
           \<and> (\<forall>model. classifier_cells rng_permutation data = Inr model \<longrightarrow>
                  0 < card (set y)
                  \<and> model = [Dense 32 Tanh (Some (ncols X)), Dense 16 Tanh None,
                              Dense (card (set y)) Softmax None])
           \<and> (2 \<le> nrows data
                \<and> (\<forall>v\<in>set y. \<exists>c<card (set y). v = real c)
                \<and> (\<forall>p\<in>set (rng_permutation (nrows data)). p < nrows data)
                \<longrightarrow> (\<exists>model. classifier_cells rng_permutation data = Inr model))"
proof -
  let ?c = "ncols data - 1"
  let ?X = "\<lparr>nrows = nrows data, ncols = ?c, rows = map (take ?c) (rows data)\<rparr>"
  let ?y = "map (\<lambda>r. r ! ?c) (rows data)"
  let ?C = "output_classes ?y"
  from wf have lr: "length (rows data) = nrows data"
    and lens: "\<And>r. r \<in> set (rows data) \<Longrightarrow> length r = ncols data"
    by (simp_all add: wf_array_def list_all_iff)
  have s: "split_features_target data = Inr (?X, ?y)"
    using two by (simp add: split_features_target_def)
  have wfX: "wf_array ?X"
    using lr lens two by (auto simp: wf_array_def list_all_iff)
  have row: "rows data ! i = rows ?X ! i @ [?y ! i]
             \<and> ?y ! i = rows data ! i ! ?c
             \<and> (\<forall>j<ncols ?X. rows ?X ! i ! j = rows data ! i ! j \<and> j \<noteq> ?c)"
    if "i < nrows data" for i
  proof -
    from that lr have mem: "rows data ! i \<in> set (rows data)" by simp
    then have len: "length (rows data ! i) = Suc ?c" using lens two by simp
    have "take ?c (rows data ! i) @ [rows data ! i ! ?c] = rows data ! i"
      using len by (metis lessI take_Suc_conv_app_nth take_all order_refl)
    then show ?thesis using that lr by simp
  qed
  have C: "?C = card (set ?y)"
    by (simp add: output_classes_def length_remdups_card_conv)
  have cells: "classifier_cells rng_permutation data =
                 (case to_categorical (map astype_int64 ?y) ?C of
                    Inl e \<Rightarrow> Inl e
                  | Inr Y \<Rightarrow>
                      (case train_test_split (rng_permutation (nrows data)) ?X Y of
                         Inl e \<Rightarrow> Inl e
                       | Inr (X_train, X_test, y_train, y_test) \<Rightarrow>
                           classifier_layers (ncols X_train) ?C))"
    by (simp add: classifier_cells_def s Let_def cong: sum.case_cong)
  have sound: "0 < card (set ?y)
               \<and> model = [Dense 32 Tanh (Some (ncols ?X)), Dense 16 Tanh None,
                           Dense (card (set ?y)) Softmax None]"
    if m: "classifier_cells rng_permutation data = Inr model" for model
  proof -
    from m cells obtain Y X_train X_test y_train y_test where
      tts: "train_test_split (rng_permutation (nrows data)) ?X Y
              = Inr (X_train, X_test, y_train, y_test)"
      and lay: "classifier_layers (ncols X_train) ?C = Inr model"
      by (auto split: sum.splits prod.splits)
    have nX: "ncols X_train = ncols ?X" by (rule train_test_split_ncols[OF tts])
    from lay have "0 < ?C
        \<and> model = [Dense 32 Tanh (Some (ncols X_train)), Dense 16 Tanh None,
                    Dense ?C Softmax None]"
      by (simp only: classifier_layers_Inr)
    then show ?thesis unfolding C nX .
  qed
  have runs: "\<exists>model. classifier_cells rng_permutation data = Inr model"
    if n: "2 \<le> nrows data"
      and lab: "\<forall>v\<in>set ?y. \<exists>c<card (set ?y). v = real c"
      and perm: "\<forall>p\<in>set (rng_permutation (nrows data)). p < nrows data"
  proof -
    have yne: "?y \<noteq> []" using n lr by auto
    then have Cpos: "0 < ?C" by (simp add: output_classes_def)
    have rng: "\<forall>v\<in>set (map astype_int64 ?y). 0 \<le> v \<and> v < int ?C"
    proof
      fix v assume "v \<in> set (map astype_int64 ?y)"
      then obtain u where u: "u \<in> set ?y" "v = astype_int64 u" by auto
      with lab obtain c where c: "c < card (set ?y)" "u = real c" by blast
      then have "v = int c" using u by (simp add: astype_int64_def)
      with c(1) show "0 \<le> v \<and> v < int ?C" unfolding C by simp
    qed
    from yne have "map astype_int64 ?y \<noteq> []" by simp
    from to_categorical_in_range[OF this Cpos rng] obtain Y where
      Y: "to_categorical (map astype_int64 ?y) ?C = Inr Y" and nY: "nrows Y = nrows data"
      using lr by auto
    have "\<exists>r. train_test_split (rng_permutation (nrows data)) ?X Y = Inr r"
      by (rule train_test_split_two_rows) (use n nY perm in simp_all)
    then obtain X_train X_test y_train y_test where
      tts: "train_test_split (rng_permutation (nrows data)) ?X Y
              = Inr (X_train, X_test, y_train, y_test)"
      by (metis prod_cases4)
    from Cpos have "\<exists>model. classifier_layers (ncols X_train) ?C = Inr model"
      by (simp add: classifier_layers_Inr)
    then show ?thesis unfolding cells Y sum.case tts prod.case .
  qed
  show ?thesis
    apply (rule exI[of _ ?X], rule exI[of _ ?y])
    using s wfX row lr sound runs by simp
qed

theorem features_exclude_label_witness:
  "wf_array \<lparr>nrows = 2, ncols = 3, rows = [[1, 2, 0], [3, 4, 1]]\<rparr>
   \<and> 2 \<le> ncols \<lparr>nrows = 2, ncols = 3, rows = [[1, 2, 0], [3, 4, 1]]\<rparr>
   \<and> split_features_target \<lparr>nrows = 2, ncols = 3, rows = [[1, 2, 0], [3, 4, 1]]\<rparr>
       = Inr (\<lparr>nrows = 2, ncols = 2, rows = [[1, 2], [3, 4]]\<rparr>, [0, 1])
   \<and> classifier_cells (\<lambda>n. rev [0..<n]) \<lparr>nrows = 2, ncols = 3, rows = [[1, 2, 0], [3, 4, 1]]\<rparr>
       = Inr [Dense 32 Tanh (Some 2), Dense 16 Tanh None, Dense 2 Softmax None]
   \<and> card (set [0, 1::real]) = 2"
proof -
  let ?data = "\<lparr>nrows = 2, ncols = 3, rows = [[1, 2, 0], [3, 4, 1::real]]\<rparr>"
  let ?X = "\<lparr>nrows = 2, ncols = 2, rows = [[1, 2], [3, 4::real]]\<rparr>"
  let ?perm = "\<lambda>n::nat. rev [0..<n]"
  have h1: "wf_array ?data" by (simp add: wf_array_def)
  have h2: "2 \<le> ncols ?data" by simp
  have ev: "split_features_target ?data = Inr (?X, [0, 1])"
    by (simp add: split_features_target_def)
  have h3: "2 \<le> nrows ?data" by simp
  have h4: "\<forall>v\<in>set [0, 1::real]. \<exists>c<card (set [0, 1::real]). v = real c"
  proof -
    have two_labels: "card (set [0, 1::real]) = 2" by simp
    have "\<exists>c<2. (0::real) = real c" by (rule exI[of _ 0]) simp
    moreover have "\<exists>c<2. (1::real) = real c" by (rule exI[of _ 1]) simp
    ultimately show ?thesis unfolding two_labels by simp
  qed
  have h5: "\<forall>p\<in>set (?perm (nrows ?data)). p < nrows ?data" by simp
  from features_exclude_label[OF h1 h2, of ?perm] ev obtain
    sound: "\<forall>model. classifier_cells ?perm ?data = Inr model \<longrightarrow>
              0 < card (set [0, 1::real])
              \<and> model = [Dense 32 Tanh (Some (ncols ?X)), Dense 16 Tanh None,
                          Dense (card (set [0, 1::real])) Softmax None]"
    and runs: "2 \<le> nrows ?data
                \<and> (\<forall>v\<in>set [0, 1::real]. \<exists>c<card (set [0, 1::real]). v = real c)
                \<and> (\<forall>p\<in>set (?perm (nrows ?data)). p < nrows ?data)
                \<longrightarrow> (\<exists>model. classifier_cells ?perm ?data = Inr model)"
    by auto
  from runs h3 h4 h5 obtain model where m: "classifier_cells ?perm ?data = Inr model" by blast
  with sound have "model = [Dense 32 Tanh (Some (ncols ?X)), Dense 16 Tanh None,
                          Dense (card (set [0, 1::real])) Softmax None]"
    by blast
  then have "model = [Dense 32 Tanh (Some 2), Dense 16 Tanh None, Dense 2 Softmax None]"
    by simp
  with m h1 h2 ev show ?thesis by simp
qed

text \<open>
  The claim as first stated promises the model for every matrix with at least two
  columns. A matrix with three columns and no rows is split as the claim says, but the
  one-hot encoding of its empty label vector raises ValueError; a matrix whose labels are
  5 and 7 has two distinct labels, and the encoding raises IndexError. In both runs no
  model is built.
\<close>

theorem classifier_cells_counterexample:
  "split_features_target \<lparr>nrows = 0, ncols = 3, rows = []\<rparr>
     = Inr (\<lparr>nrows = 0, ncols = 2, rows = []\<rparr>, [])
   \<and> classifier_cells (\<lambda>n. [0..<n]) \<lparr>nrows = 0, ncols = 3, rows = []\<rparr> = Inl ValueError
   \<and> classifier_cells (\<lambda>n. [0..<n]) \<lparr>nrows = 2, ncols = 3, rows = [[1, 2, 5], [3, 4, 7]]\<rparr>
       = Inl IndexError"
  by (simp add: classifier_cells_def split_features_target_def output_classes_def
        to_categorical_def one_hot_row_def astype_int64_def upt_rec)

text \<open>
  C9. The result of align_peaks does not depend on its times argument (nor does that of
  get_peaks, which passes the global times to get_peak), and both loops run over the
  global num_train_samples: a returned array has that many columns, whatever the number
  of columns of training_set.
\<close>

theorem align_peaks_ignores_times:
  "align_peaks g t1 training_set = align_peaks g t2 training_set
   \<and> get_peaks g t1 training_set = get_peaks g t2 training_set
   \<and> (align_peaks g t1 training_set = Inr R \<longrightarrow> ncols R = num_train_samples g)"
proof -
  have "ncols R = num_train_samples g" if "align_peaks g t1 training_set = Inr R"
  proof -
    from that obtain aligned ts peaks m where
      c: "collect (\<lambda>i. slice_col training_set (peaks ! i - m) i) [0..<num_train_samples g] = Inr aligned"
      and g: "common_time_grid aligned (1 / 10) = Inr (ts, R)"
      by (auto simp: align_peaks_def split: sum.splits prod.splits)
    from collect_length[OF c] common_time_grid_ncols[OF g] show ?thesis by simp
  qed
  then show ?thesis by (simp add: align_peaks_def get_peaks_def)
qed

theorem align_peaks_ignores_times_witness:
  "align_peaks \<lparr>num_train_samples = 1, times_global = [0, 1 / 10, 1 / 5]\<rparr> [7, 8]
      \<lparr>nrows = 3, ncols = 2, rows = [[1, 5], [3, 1], [2, 0]]\<rparr>
     = Inr \<lparr>nrows = 3, ncols = 1, rows = [[1], [3], [2]]\<rparr>
   \<and> align_peaks \<lparr>num_train_samples = 1, times_global = [0, 1 / 10, 1 / 5]\<rparr> []
      \<lparr>nrows = 3, ncols = 2, rows = [[1, 5], [3, 1], [2, 0]]\<rparr>
     = Inr \<lparr>nrows = 3, ncols = 1, rows = [[1], [3], [2]]\<rparr>
   \<and> ncols \<lparr>nrows = 3, ncols = 1, rows = [[1], [3], [2::real]]\<rparr>
       = num_train_samples \<lparr>num_train_samples = 1, times_global = [0, 1 / 10, 1 / 5]\<rparr>"
proof -
  let ?A = "\<lparr>nrows = 3, ncols = 2, rows = [[1, 5], [3, 1], [2, 0::real]]\<rparr>"
  let ?g = "\<lparr>num_train_samples = 1, times_global = [0, 1 / 10, 1 / 5]\<rparr>"
  let ?R = "\<lparr>nrows = 3, ncols = 1, rows = [[1], [3], [2::real]]\<rparr>"
  have ev: "align_peaks ?g [7, 8] ?A = Inr ?R"
    by (simp add: common_time_grid_def longest_waveform_def pad_waveforms_def np_append_def
          np_zeros_def arange_times_def np_vstack_def np_transpose_def Let_def upt_rec
          align_peaks_def get_peaks_def get_peak_def column_def slice_col_def np_argmax_def
          np_abs_def py_min_def)
  from align_peaks_ignores_times[of ?g "[7, 8]" ?A "[]" ?R] ev
  have "align_peaks ?g [] ?A = Inr ?R" and "ncols ?R = num_train_samples ?g"
    by simp_all
  with ev show ?thesis by blast
qed

end
